theory Spec2Isabelle
  imports Main
begin

section \<open>linctl: filter construction, sort normalisation and string truncation\<close>

text \<open>
  The development follows two source files of linctl. \<^verbatim>\<open>cmd/comment.go\<close> holds
  \<^verbatim>\<open>buildIssueFilter\<close> (lines 929 to 980), \<^verbatim>\<open>truncateString\<close> (lines 999 to 1004)
  and the \<^verbatim>\<open>Run\<close> bodies of \<^verbatim>\<open>issueListCmd\<close> (lines 264 to 302) and
  \<^verbatim>\<open>issueSearchCmd\<close> (lines 430 to 472); \<^verbatim>\<open>unnamed/part_001\<close> holds the
  \<^verbatim>\<open>Run\<close> body of \<^verbatim>\<open>projectListCmd\<close> (lines 55 to 125). Go strings are byte
  sequences, so a Go string is a \<^typ>\<open>string\<close> and \<^verbatim>\<open>len\<close> is \<^const>\<open>length\<close>.
\<close>

subsection \<open>Data\<close>

text \<open>
  A filter is a Go \<^verbatim>\<open>map[string]interface{}\<close>. The values the commands store in it are
  strings, booleans, integers, string slices and nested map literals. A nested literal is
  kept as the list of its entries, in the order the literal writes them.
\<close>

datatype jvalue =
    JString string
  | JBool bool
  | JInt int
  | JStrings "string list"
  | JObject "(string \<times> jvalue) list"

type_synonym filter = "string \<rightharpoonup> jvalue"

text \<open>
  \<^verbatim>\<open>output.Error(msg, plaintext, jsonOut)\<close> followed by \<^verbatim>\<open>os.Exit(1)\<close> ends the
  command: the model returns the exit status with the message instead of a result.
\<close>

datatype abort = Exit (status: int) (message: string)

text \<open>
  A run-time panic of Go. The only one that the modelled code can raise is the bounds
  check of a slice expression.
\<close>

datatype panic = SliceBoundsOutOfRange

text \<open>
  The flags of \<^verbatim>\<open>issue list\<close> and \<^verbatim>\<open>issue search\<close>, as \<^verbatim>\<open>cmd.Flags()\<close> returns
  them. The fields carry the names of the Go variables that receive them, after a prefix.
\<close>

record issue_flags =
  i_assignee :: string
  i_state :: string
  i_team :: string
  i_priority :: int
  i_includeCompleted :: bool
  i_newerThan :: string
  i_sortBy :: string
  i_limit :: int
  i_includeArchived :: bool

text \<open>The flags of \<^verbatim>\<open>project list\<close>.\<close>

record project_flags =
  p_team :: string
  p_state :: string
  p_limit :: int
  p_includeCompleted :: bool
  p_newerThan :: string
  p_sortBy :: string

text \<open>
  \<^verbatim>\<open>utils.ParseTimeExpression\<close> has the Go type \<^verbatim>\<open>func(string) (string, error)\<close>. The
  commands only call it, so they take it as a parameter: \<open>Inl msg\<close> is a non-nil error
  whose text is \<open>msg\<close>, \<open>Inr s\<close> is the string returned with a nil error.
\<close>

type_synonym time_parser = "string \<Rightarrow> string + string"

text \<open>
  \<^verbatim>\<open>client.GetTeam\<close> is a network call of \<^verbatim>\<open>project list\<close>: a parameter as well,
  \<open>Inl msg\<close> for an error and \<open>Inr id\<close> for the \<^verbatim>\<open>ID\<close> of the team found.
\<close>

type_synonym team_lookup = "string \<Rightarrow> string + string"

subsection \<open>Machine integers\<close>

text \<open>
  Go's \<^verbatim>\<open>int\<close> has 64 bits on the platforms linctl is built for; arithmetic wraps.
\<close>

definition in_int64 :: "int \<Rightarrow> bool" where
  "in_int64 x \<longleftrightarrow> - (2 ^ 63) \<le> x \<and> x < 2 ^ 63"

definition wrap64 :: "int \<Rightarrow> int" where
  "wrap64 x = (x + 2 ^ 63) mod 2 ^ 64 - 2 ^ 63"

subsection \<open>\<^verbatim>\<open>truncateString\<close>\<close>

text \<open>
  \<^verbatim>\<open>
  func truncateString(s string, maxLen int) string {
      if len(s) <= maxLen {
          return s
      }
      return s[:maxLen-3] + "..."
  }
  \<close>
  The slice expression \<^verbatim>\<open>s[:hi]\<close> panics unless \<^verbatim>\<open>0 <= hi <= len(s)\<close>.
\<close>

definition truncateString :: "string \<Rightarrow> int \<Rightarrow> panic + string" where
  "truncateString s maxLen =
     (if int (length s) \<le> maxLen then Inr s
      else
        let hi = wrap64 (maxLen - 3) in
        if hi < 0 \<or> int (length s) < hi then Inl SliceBoundsOutOfRange
        else Inr (take (nat hi) s @ ''...''))"

subsection \<open>\<^verbatim>\<open>buildIssueFilter\<close>\<close>

text \<open>
  The function fills the filter key by key and ends the command when the time
  expression is refused. The four values it stores under \<^verbatim>\<open>assignee\<close> and
  \<^verbatim>\<open>state\<close>:
\<close>

definition isMe :: jvalue where
  "isMe = JObject [(''isMe'', JObject [(''eq'', JBool True)])]"

definition emailEq :: "string \<Rightarrow> jvalue" where
  "emailEq a = JObject [(''email'', JObject [(''eq'', JString a)])]"

definition stateNameEq :: "string \<Rightarrow> jvalue" where
  "stateNameEq s = JObject [(''name'', JObject [(''eq'', JString s)])]"

definition stateTypeNotIn :: jvalue where
  "stateTypeNotIn =
     JObject [(''type'', JObject [(''nin'', JStrings [''completed'', ''canceled''])])]"

text \<open>The value both commands store under \<^verbatim>\<open>createdAt\<close>.\<close>

definition createdGte :: "string \<Rightarrow> jvalue" where
  "createdGte t = JObject [(''gte'', JString t)]"

definition buildIssueFilter :: "time_parser \<Rightarrow> issue_flags \<Rightarrow> abort + filter" where
  "buildIssueFilter ParseTimeExpression cmd =
     (let filter' = Map.empty;
          filter' =
            (if i_assignee cmd \<noteq> '''' then
               (if i_assignee cmd = ''me'' then filter'(''assignee'' \<mapsto> isMe)
                else filter'(''assignee'' \<mapsto> emailEq (i_assignee cmd)))
             else filter');
          filter' =
            (if i_state cmd \<noteq> '''' then filter'(''state'' \<mapsto> stateNameEq (i_state cmd))
             else if \<not> i_includeCompleted cmd then filter'(''state'' \<mapsto> stateTypeNotIn)
             else filter');
          filter' =
            (if i_team cmd \<noteq> '''' then
               filter'(''team'' \<mapsto> JObject [(''key'', JObject [(''eq'', JString (i_team cmd))])])
             else filter');
          filter' =
            (if i_priority cmd \<noteq> - 1 then
               filter'(''priority'' \<mapsto> JObject [(''eq'', JInt (i_priority cmd))])
             else filter')
      in (case ParseTimeExpression (i_newerThan cmd) of
            Inl err \<Rightarrow> Inl (Exit 1 (''Invalid newer-than value: '' @ err))
          | Inr createdAt \<Rightarrow>
              Inr (if createdAt \<noteq> '''' then filter'(''createdAt'' \<mapsto> createdGte createdAt)
                   else filter')))"

subsection \<open>The list and search commands\<close>

text \<open>
  What a command hands to the API client once its arguments are computed:
  \<^verbatim>\<open>client.GetIssues(ctx, filter, limit, "", orderBy)\<close>,
  \<^verbatim>\<open>client.IssueSearch(ctx, query, filter, limit, "", orderBy, includeArchived)\<close> and
  \<^verbatim>\<open>client.GetProjects(ctx, filter, limit, "", orderBy)\<close>.
\<close>

datatype call =
    GetIssues filter int string string
  | IssueSearch string filter int string string bool
  | GetProjects filter int string string



text \<open>
  Each command carries its own copy of the \<^verbatim>\<open>switch sortBy\<close> block; each copy is
  translated from its own source lines.
\<close>

definition issueListCmd_orderBy :: "string \<Rightarrow> abort + string" where
  "issueListCmd_orderBy sortBy =
     (if sortBy \<noteq> '''' then
        (if sortBy = ''created'' \<or> sortBy = ''createdAt'' then Inr ''createdAt''
         else if sortBy = ''updated'' \<or> sortBy = ''updatedAt'' then Inr ''updatedAt''
         else if sortBy = ''linear'' then Inr ''''
         else Inl (Exit 1 (''Invalid sort option: '' @ sortBy
                 @ ''. Valid options are: linear, created, updated'')))
      else Inr '''')"

definition issueSearchCmd_orderBy :: "string \<Rightarrow> abort + string" where
  "issueSearchCmd_orderBy sortBy =
     (if sortBy \<noteq> '''' then
        (if sortBy = ''created'' \<or> sortBy = ''createdAt'' then Inr ''createdAt''
         else if sortBy = ''updated'' \<or> sortBy = ''updatedAt'' then Inr ''updatedAt''
         else if sortBy = ''linear'' then Inr ''''
         else Inl (Exit 1 (''Invalid sort option: '' @ sortBy
                 @ ''. Valid options are: linear, created, updated'')))
      else Inr '''')"

definition projectListCmd_orderBy :: "string \<Rightarrow> abort + string" where
  "projectListCmd_orderBy sortBy =
     (if sortBy \<noteq> '''' then
        (if sortBy = ''created'' \<or> sortBy = ''createdAt'' then Inr ''createdAt''
         else if sortBy = ''updated'' \<or> sortBy = ''updatedAt'' then Inr ''updatedAt''
         else if sortBy = ''linear'' then Inr ''''
         else Inl (Exit 1 (''Invalid sort option: '' @ sortBy
                 @ ''. Valid options are: linear, created, updated'')))
      else Inr '''')"

text \<open>
  The \<^verbatim>\<open>Run\<close> body of \<^verbatim>\<open>issue list\<close>, from the line that builds the filter to the
  call of the client (the authentication that precedes it and the rendering that follows
  it are outside the model).
\<close>

definition issueListCmd :: "time_parser \<Rightarrow> issue_flags \<Rightarrow> abort + call" where
  "issueListCmd ParseTimeExpression cmd =
     (case buildIssueFilter ParseTimeExpression cmd of
        Inl a \<Rightarrow> Inl a
      | Inr filter' \<Rightarrow>
          let lim = (if i_limit cmd = 0 then 50 else i_limit cmd) in
          (case issueListCmd_orderBy (i_sortBy cmd) of
             Inl a \<Rightarrow> Inl a
           | Inr orderBy \<Rightarrow> Inr (GetIssues filter' lim '''' orderBy)))"

text \<open>
  The \<^verbatim>\<open>Run\<close> body of \<^verbatim>\<open>issue search\<close>, from the same line on; \<open>query\<close> is the
  trimmed, non-empty search text computed before.
\<close>

definition issueSearchCmd :: "time_parser \<Rightarrow> string \<Rightarrow> issue_flags \<Rightarrow> abort + call" where
  "issueSearchCmd ParseTimeExpression query cmd =
     (case buildIssueFilter ParseTimeExpression cmd of
        Inl a \<Rightarrow> Inl a
      | Inr filter' \<Rightarrow>
          let lim = (if i_limit cmd = 0 then 50 else i_limit cmd) in
          (case issueSearchCmd_orderBy (i_sortBy cmd) of
             Inl a \<Rightarrow> Inl a
           | Inr orderBy \<Rightarrow>
               Inr (IssueSearch query filter' lim '''' orderBy (i_includeArchived cmd))))"

text \<open>
  The filter of \<^verbatim>\<open>project list\<close> is built inside its \<^verbatim>\<open>Run\<close> body: the team key is
  looked up first (a failed lookup ends the command), then the state and the creation
  time are added.
\<close>

definition projectStateNotIn :: jvalue where
  "projectStateNotIn = JObject [(''nin'', JStrings [''completed'', ''canceled''])]"

definition projectListCmd_filter ::
    "time_parser \<Rightarrow> team_lookup \<Rightarrow> project_flags \<Rightarrow> abort + filter" where
  "projectListCmd_filter ParseTimeExpression GetTeam cmd =
     (let filter' = Map.empty in
      case (if p_team cmd \<noteq> '''' then
              (case GetTeam (p_team cmd) of
                 Inl err \<Rightarrow>
                   Inl (Exit 1 (''Failed to find team '' @ [CHR 0x27] @ p_team cmd
                          @ [CHR 0x27] @ '': '' @ err))
               | Inr teamID \<Rightarrow> Inr (filter'(''team'' \<mapsto> JObject [(''id'', JString teamID)])))
            else Inr filter') of
        Inl a \<Rightarrow> Inl a
      | Inr filter' \<Rightarrow>
          (let filter' =
                 (if p_state cmd \<noteq> '''' then
                    filter'(''state'' \<mapsto> JObject [(''eq'', JString (p_state cmd))])
                  else if \<not> p_includeCompleted cmd then filter'(''state'' \<mapsto> projectStateNotIn)
                  else filter')
           in (case ParseTimeExpression (p_newerThan cmd) of
                 Inl err \<Rightarrow> Inl (Exit 1 (''Invalid newer-than value: '' @ err))
               | Inr createdAt \<Rightarrow>
                   Inr (if createdAt \<noteq> '''' then
                          filter'(''createdAt'' \<mapsto> createdGte createdAt)
                        else filter'))))"

text \<open>
  The runs of \<^verbatim>\<open>project list\<close> that get past the team lookup: no team key was
  given, or \<^verbatim>\<open>client.GetTeam\<close> found the team.
\<close>

definition team_found :: "team_lookup \<Rightarrow> project_flags \<Rightarrow> bool" where
  "team_found G cmd \<longleftrightarrow> p_team cmd = '''' \<or> (\<exists>teamID. G (p_team cmd) = Inr teamID)"

definition projectListCmd ::
    "time_parser \<Rightarrow> team_lookup \<Rightarrow> project_flags \<Rightarrow> abort + call" where
  "projectListCmd ParseTimeExpression GetTeam cmd =
     (case projectListCmd_filter ParseTimeExpression GetTeam cmd of
        Inl a \<Rightarrow> Inl a
      | Inr filter' \<Rightarrow>
          (case projectListCmd_orderBy (p_sortBy cmd) of
             Inl a \<Rightarrow> Inl a
           | Inr orderBy \<Rightarrow> Inr (GetProjects filter' (p_limit cmd) '''' orderBy)))"

text \<open>The flag values a command sees when no flag is given on the command line.\<close>

definition issue_defaults :: issue_flags where
  "issue_defaults =
     \<lparr>i_assignee = '''', i_state = '''', i_team = '''', i_priority = - 1, i_includeCompleted = False,
      i_newerThan = '''', i_sortBy = ''linear'', i_limit = 50, i_includeArchived = False\<rparr>"

definition project_defaults :: project_flags where
  "project_defaults =
     \<lparr>p_team = '''', p_state = '''', p_limit = 50, p_includeCompleted = False,
      p_newerThan = '''', p_sortBy = ''linear''\<rparr>"

text \<open>
  A stand-in for \<^verbatim>\<open>utils.ParseTimeExpression\<close> or \<^verbatim>\<open>client.GetTeam\<close> that gives
  the same answer to every argument; the examples use it to fix what the call returned.
\<close>

definition answering :: "string + string \<Rightarrow> time_parser" where
  "answering r = (\<lambda>_. r)"

text \<open>
  A stand-in for \<^verbatim>\<open>utils.ParseTimeExpression\<close> given by a table of expressions and
  answers; every expression outside the table is refused.
\<close>

definition tabled :: "(string \<times> (string + string)) list \<Rightarrow> time_parser" where
  "tabled tbl e =
     (case map_of tbl e of
        Some r \<Rightarrow> r
      | None \<Rightarrow> Inl (''invalid time expression: '' @ e))"


section \<open>The time expression resolver\<close>

text \<open>
  Package \<^verbatim>\<open>pkg/utils\<close>, which holds \<^verbatim>\<open>ParseTimeExpression\<close>, is not among the
  sources. This section models the resolver from the specification (sections 3 and 4.1).
\<close>

subsection \<open>Boundaries\<close>

text \<open>
  Modelled from the spec: the timestamp of a boundary, "an absolute point in time, UTC"
  (the time package behind the missing \<^verbatim>\<open>pkg/utils\<close>). It is kept as the civil date and
  time of day in UTC, with a resolution of one second.
\<close>

record timestamp =
  ts_year :: int
  ts_month :: int
  ts_day :: int
  ts_hour :: int
  ts_minute :: int
  ts_second :: int

text \<open>
  Modelled from the spec: the result of the missing resolver, the tagged variant
  \<^verbatim>\<open>UseDefault | Unbounded | At(timestamp)\<close> of sections 3 and 9.
\<close>

datatype ResolvedBoundary = UseDefault | Unbounded | At timestamp

text \<open>
  Modelled from the spec: the units of the relative pattern of the missing resolver.
\<close>

datatype time_unit = Minute | Hour | Day | Week | Month | Year

text \<open>
  Modelled from the spec: the error of the missing resolver, "carrying the offending
  string and the set of accepted forms".
\<close>

datatype resolve_error = InvalidTimeExpression string "string list"

subsection \<open>Calendar arithmetic\<close>

text \<open>
  Modelled from the spec: the Gregorian calendar that the missing resolver needs for
  "calendar-month arithmetic": leap years and the length of a month.
\<close>

definition is_leap :: "int \<Rightarrow> bool" where
  "is_leap y \<longleftrightarrow> y mod 4 = 0 \<and> (y mod 100 \<noteq> 0 \<or> y mod 400 = 0)"

definition days_in_month :: "int \<Rightarrow> int \<Rightarrow> int" where
  "days_in_month y m =
     (if m = 2 then (if is_leap y then 29 else 28)
      else if m = 4 \<or> m = 6 \<or> m = 9 \<or> m = 11 then 30
      else 31)"

text \<open>
  Modelled from the spec: a well-formed reading of the wall clock, the "now" of the
  missing resolver.
\<close>

definition valid_timestamp :: "timestamp \<Rightarrow> bool" where
  "valid_timestamp t \<longleftrightarrow>
     1 \<le> ts_month t \<and> ts_month t \<le> 12
     \<and> 1 \<le> ts_day t \<and> ts_day t \<le> days_in_month (ts_year t) (ts_month t)
     \<and> 0 \<le> ts_hour t \<and> ts_hour t < 24
     \<and> 0 \<le> ts_minute t \<and> ts_minute t < 60
     \<and> 0 \<le> ts_second t \<and> ts_second t < 60"

text \<open>
  Modelled from the spec: the day count of a civil date (days since 1970-01-01) and its
  inverse, which the missing resolver needs to subtract minutes, hours, days and weeks
  from the current time and to bring a timestamp with an offset to UTC.
\<close>

definition days_from_civil :: "int \<Rightarrow> int \<Rightarrow> int \<Rightarrow> int" where
  "days_from_civil y m d =
     (let y' = (if m \<le> 2 then y - 1 else y);
          era = y' div 400;
          yoe = y' - era * 400;
          doy = (153 * (if m > 2 then m - 3 else m + 9) + 2) div 5 + d - 1;
          doe = yoe * 365 + yoe div 4 - yoe div 100 + doy
      in era * 146097 + doe - 719468)"

definition civil_from_days :: "int \<Rightarrow> int \<times> int \<times> int" where
  "civil_from_days z =
     (let z' = z + 719468;
          era = z' div 146097;
          doe = z' - era * 146097;
          yoe = (doe - doe div 1460 + doe div 36524 - doe div 146096) div 365;
          doy = doe - (365 * yoe + yoe div 4 - yoe div 100);
          mp = (5 * doy + 2) div 153;
          d = doy - (153 * mp + 2) div 5 + 1;
          m = (if mp < 10 then mp + 3 else mp - 9);
          y = yoe + era * 400
      in (if m \<le> 2 then y + 1 else y, m, d))"

definition to_seconds :: "timestamp \<Rightarrow> int" where
  "to_seconds t =
     days_from_civil (ts_year t) (ts_month t) (ts_day t) * 86400
       + ts_hour t * 3600 + ts_minute t * 60 + ts_second t"

definition of_seconds :: "int \<Rightarrow> timestamp" where
  "of_seconds x =
     (let r = x mod 86400 in
      case civil_from_days (x div 86400) of
        (y, m, d) \<Rightarrow>
          \<lparr>ts_year = y, ts_month = m, ts_day = d,
           ts_hour = r div 3600, ts_minute = r mod 3600 div 60, ts_second = r mod 60\<rparr>)"

text \<open>
  Modelled from the spec: the subtraction of the missing resolver. Minutes, hours, days
  and weeks are fixed spans of seconds. "Month subtraction uses calendar-month arithmetic
  (not a fixed 30-day constant)": the month moves back, the time of day stays, and a day
  that the target month does not have becomes its last valid day (March 31 less one
  month is the last day of February). "Year subtraction uses calendar-year arithmetic":
  twelve calendar months a year.
\<close>

definition minus_seconds :: "int \<Rightarrow> timestamp \<Rightarrow> timestamp" where
  "minus_seconds n t = of_seconds (to_seconds t - n)"

definition minus_months :: "int \<Rightarrow> timestamp \<Rightarrow> timestamp" where
  "minus_months n t =
     (let months = 12 * ts_year t + (ts_month t - 1) - n;
          y = months div 12;
          m = months mod 12 + 1
      in t\<lparr>ts_year := y, ts_month := m, ts_day := min (ts_day t) (days_in_month y m)\<rparr>)"

fun minus_units :: "nat \<Rightarrow> time_unit \<Rightarrow> timestamp \<Rightarrow> timestamp" where
  "minus_units n Minute t = minus_seconds (60 * int n) t"
| "minus_units n Hour t = minus_seconds (3600 * int n) t"
| "minus_units n Day t = minus_seconds (86400 * int n) t"
| "minus_units n Week t = minus_seconds (604800 * int n) t"
| "minus_units n Month t = minus_months (int n) t"
| "minus_units n Year t = minus_months (12 * int n) t"

subsection \<open>The grammar\<close>

text \<open>
  Modelled from the spec: the numbers of the missing resolver's grammar, "a non-negative
  integer" written in decimal digits.
\<close>

definition is_digit :: "char \<Rightarrow> bool" where
  "is_digit c \<longleftrightarrow> c \<in> set ''0123456789''"

definition digit_value :: "char \<Rightarrow> nat" where
  "digit_value c = of_char c - 48"

definition number :: "string \<Rightarrow> nat option" where
  "number ds =
     (if ds \<noteq> [] \<and> list_all is_digit ds
      then Some (foldl (\<lambda>n c. 10 * n + digit_value c) 0 ds) else None)"

text \<open>
  Modelled from the spec: the unit names of the missing resolver, singular and plural,
  matched case-sensitively.
\<close>

definition unit_of :: "string \<Rightarrow> time_unit option" where
  "unit_of u =
     (if u = ''minute'' \<or> u = ''minutes'' then Some Minute
      else if u = ''hour'' \<or> u = ''hours'' then Some Hour
      else if u = ''day'' \<or> u = ''days'' then Some Day
      else if u = ''week'' \<or> u = ''weeks'' then Some Week
      else if u = ''month'' \<or> u = ''months'' then Some Month
      else if u = ''year'' \<or> u = ''years'' then Some Year
      else None)"

text \<open>
  Modelled from the spec: the relative pattern \<^verbatim>\<open>N_unit_ago\<close> of the missing resolver.
\<close>

definition parse_relative :: "string \<Rightarrow> (nat \<times> time_unit) option" where
  "parse_relative e =
     (let ds = takeWhile is_digit e; rest = dropWhile is_digit e in
      case number ds of
        None \<Rightarrow> None
      | Some n \<Rightarrow>
          if 5 \<le> length rest \<and> take 1 rest = ''_''
             \<and> drop (length rest - 4) rest = ''_ago''
          then map_option (Pair n) (unit_of (take (length rest - 5) (drop 1 rest)))
          else None)"

text \<open>
  Modelled from the spec: the absolute forms of the missing resolver, \<^verbatim>\<open>YYYY-MM-DD\<close>
  or a full RFC 3339 timestamp, "assumed UTC when no offset is given". A fraction of a
  second is read and dropped.
\<close>

definition parse_date :: "string \<Rightarrow> (int \<times> int \<times> int) option" where
  "parse_date s =
     (if length s = 10 \<and> s ! 4 = CHR ''-'' \<and> s ! 7 = CHR ''-'' then
        (case (number (take 4 s), number (take 2 (drop 5 s)), number (drop 8 s)) of
           (Some y, Some m, Some d) \<Rightarrow>
             if 1 \<le> m \<and> m \<le> 12 \<and> 1 \<le> d \<and> int d \<le> days_in_month (int y) (int m)
             then Some (int y, int m, int d) else None
         | _ \<Rightarrow> None)
      else None)"

definition parse_clock :: "string \<Rightarrow> (int \<times> int \<times> int) option" where
  "parse_clock s =
     (if length s = 8 \<and> s ! 2 = CHR '':'' \<and> s ! 5 = CHR '':'' then
        (case (number (take 2 s), number (take 2 (drop 3 s)), number (drop 6 s)) of
           (Some h, Some m, Some sec) \<Rightarrow>
             if h < 24 \<and> m < 60 \<and> sec < 60 then Some (int h, int m, int sec) else None
         | _ \<Rightarrow> None)
      else None)"

definition drop_fraction :: "string \<Rightarrow> string option" where
  "drop_fraction s =
     (if take 1 s = ''.'' then
        (if takeWhile is_digit (drop 1 s) = [] then None
         else Some (dropWhile is_digit (drop 1 s)))
      else Some s)"

definition parse_offset :: "string \<Rightarrow> int option" where
  "parse_offset s =
     (if s = '''' \<or> s = ''Z'' then Some 0
      else if length s = 6 \<and> (s ! 0 = CHR ''+'' \<or> s ! 0 = CHR ''-'') \<and> s ! 3 = CHR '':'' then
        (case (number (take 2 (drop 1 s)), number (drop 4 s)) of
           (Some h, Some m) \<Rightarrow>
             if h < 24 \<and> m < 60
             then Some ((if s ! 0 = CHR ''-'' then - 1 else 1) * (int h * 3600 + int m * 60))
             else None
         | _ \<Rightarrow> None)
      else None)"

definition parse_absolute :: "string \<Rightarrow> timestamp option" where
  "parse_absolute e =
     (case parse_date (take 10 e) of
        None \<Rightarrow> None
      | Some (y, m, d) \<Rightarrow>
          if length e = 10 then
            Some \<lparr>ts_year = y, ts_month = m, ts_day = d,
                  ts_hour = 0, ts_minute = 0, ts_second = 0\<rparr>
          else if 19 \<le> length e \<and> e ! 10 = CHR ''T'' then
            (case (parse_clock (take 8 (drop 11 e)),
                   Option.bind (drop_fraction (drop 19 e)) parse_offset) of
               (Some (h, mi, s), Some off) \<Rightarrow>
                 Some (minus_seconds off
                   \<lparr>ts_year = y, ts_month = m, ts_day = d,
                    ts_hour = h, ts_minute = mi, ts_second = s\<rparr>)
             | _ \<Rightarrow> None)
          else None)"

subsection \<open>\<^verbatim>\<open>resolve\<close>\<close>

text \<open>
  Modelled from the spec: the accepted forms that the error of the missing resolver
  carries "for user-facing diagnostics".
\<close>

definition accepted_forms :: "string list" where
  "accepted_forms = [''all_time'', ''N_unit_ago'', ''YYYY-MM-DD'', ''RFC 3339 timestamp'']"

text \<open>
  Modelled from the spec: whether an expression matches one of the grammar forms of the
  missing resolver.
\<close>

definition recognized :: "string \<Rightarrow> bool" where
  "recognized e \<longleftrightarrow>
     e = '''' \<or> e = ''all_time'' \<or> parse_relative e \<noteq> None \<or> parse_absolute e \<noteq> None"

text \<open>
  Modelled from the spec: \<^verbatim>\<open>resolve(expression)\<close>, the contract of the missing
  \<^verbatim>\<open>utils.ParseTimeExpression\<close>, with the current wall-clock time as an argument. The
  grammar is tried in the order of section 4.1: the empty string, \<^verbatim>\<open>all_time\<close>, the
  relative pattern, the absolute forms, and failure for anything else.
\<close>

definition resolve :: "timestamp \<Rightarrow> string \<Rightarrow> resolve_error + ResolvedBoundary" where
  "resolve now e =
     (if e = '''' then Inr UseDefault
      else if e = ''all_time'' then Inr Unbounded
      else
        (case parse_relative e of
           Some (n, u) \<Rightarrow> Inr (At (minus_units n u now))
         | None \<Rightarrow>
             (case parse_absolute e of
                Some t \<Rightarrow> Inr (At t)
              | None \<Rightarrow> Inl (InvalidTimeExpression e accepted_forms))))"

subsection \<open>The resolver behind the Go signature\<close>

text \<open>
  Modelled from the spec: the text of a boundary. The callers of the missing
  \<^verbatim>\<open>utils.ParseTimeExpression\<close> receive a string and store it under \<^verbatim>\<open>gte\<close>; the
  boundary is "an absolute point in time, UTC", written here as an RFC 3339 timestamp
  with the offset \<^verbatim>\<open>Z\<close>.
\<close>

definition digit_char :: "nat \<Rightarrow> char" where
  "digit_char n = ''0123456789'' ! (n mod 10)"

definition pad2 :: "int \<Rightarrow> string" where
  "pad2 x = [digit_char (nat x div 10), digit_char (nat x)]"

definition pad4 :: "int \<Rightarrow> string" where
  "pad4 x =
     [digit_char (nat x div 1000), digit_char (nat x div 100), digit_char (nat x div 10),
      digit_char (nat x)]"

definition rfc3339 :: "timestamp \<Rightarrow> string" where
  "rfc3339 t =
     pad4 (ts_year t) @ ''-'' @ pad2 (ts_month t) @ ''-'' @ pad2 (ts_day t) @ ''T''
       @ pad2 (ts_hour t) @ '':'' @ pad2 (ts_minute t) @ '':'' @ pad2 (ts_second t) @ ''Z''"

text \<open>
  Modelled from the spec: the text of the error of the missing resolver, as the commands
  print it after "Invalid newer-than value: ". It names the offending string; the
  accepted forms travel in the error value.
\<close>

fun error_text :: "resolve_error \<Rightarrow> string" where
  "error_text (InvalidTimeExpression s forms) = ''invalid time expression: '' @ s"

text \<open>
  Modelled from the spec: \<^verbatim>\<open>utils.ParseTimeExpression\<close> itself, the missing function
  that the commands call. Its call sites fix the Go signature
  \<^verbatim>\<open>func(string) (string, error)\<close> and read the empty string as "no boundary"; it is
  the resolver of section 4.1 behind that signature. \<^verbatim>\<open>InvalidTimeExpression\<close> is the
  non-nil error, \<^verbatim>\<open>Unbounded\<close> is the empty string and \<^verbatim>\<open>At(timestamp)\<close> is the text
  of the timestamp. For "use default" the string is the text of the resource's default
  boundary \<^verbatim>\<open>policy.DefaultBoundary\<close> ("e.g., six months before now"), an argument
  here: the commands in the sources hold no default, so the signature leaves no other
  place for it.
\<close>

definition ParseTimeExpression :: "timestamp \<Rightarrow> timestamp \<Rightarrow> time_parser" where
  "ParseTimeExpression defaultBoundary now e =
     (case resolve now e of
        Inl err \<Rightarrow> Inl (error_text err)
      | Inr UseDefault \<Rightarrow> Inr (rfc3339 defaultBoundary)
      | Inr Unbounded \<Rightarrow> Inr ''''
      | Inr (At t) \<Rightarrow> Inr (rfc3339 t))"

section \<open>Properties\<close>

subsection \<open>The keys of the issue filter\<close>

text \<open>
  \<^verbatim>\<open>buildIssueFilter\<close> returns a filter exactly when the time expression is accepted,
  and each key of that filter depends on one flag (two for \<^verbatim>\<open>state\<close>).
\<close>

lemma buildIssueFilter_returns:
  assumes "P (i_newerThan cmd) = Inr c"
  shows "\<exists>f. buildIssueFilter P cmd = Inr f"
  using assms by (simp add: buildIssueFilter_def Let_def)

lemma buildIssueFilter_aborts:
  assumes "P (i_newerThan cmd) = Inl err"
  shows "buildIssueFilter P cmd = Inl (Exit 1 (''Invalid newer-than value: '' @ err))"
  using assms by (simp add: buildIssueFilter_def Let_def)

lemma buildIssueFilter_createdAt:
  assumes "P (i_newerThan cmd) = Inr c" and "buildIssueFilter P cmd = Inr f"
  shows "f ''createdAt'' = (if c = '''' then None else Some (createdGte c))"
  using assms by (auto simp add: buildIssueFilter_def Let_def)

lemma buildIssueFilter_state:
  assumes "buildIssueFilter P cmd = Inr f"
  shows "f ''state'' =
    (if i_state cmd \<noteq> '''' then Some (stateNameEq (i_state cmd))
     else if \<not> i_includeCompleted cmd then Some stateTypeNotIn else None)"
  using assms by (auto simp add: buildIssueFilter_def Let_def split: sum.splits)

lemma buildIssueFilter_assignee:
  assumes "buildIssueFilter P cmd = Inr f"
  shows "f ''assignee'' =
    (if i_assignee cmd = '''' then None
     else if i_assignee cmd = ''me'' then Some isMe
     else Some (emailEq (i_assignee cmd)))"
  using assms by (auto simp add: buildIssueFilter_def Let_def split: sum.splits)

subsection \<open>The keys of the project filter\<close>

lemma projectListCmd_filter_returns:
  assumes "team_found G cmd" and "P (p_newerThan cmd) = Inr c"
  shows "\<exists>f. projectListCmd_filter P G cmd = Inr f"
  using assms by (auto simp add: projectListCmd_filter_def team_found_def Let_def)

lemma projectListCmd_filter_aborts:
  assumes "team_found G cmd" and "P (p_newerThan cmd) = Inl err"
  shows "projectListCmd_filter P G cmd = Inl (Exit 1 (''Invalid newer-than value: '' @ err))"
  using assms by (auto simp add: projectListCmd_filter_def team_found_def Let_def)

lemma projectListCmd_filter_createdAt:
  assumes "P (p_newerThan cmd) = Inr c" and "projectListCmd_filter P G cmd = Inr f"
  shows "f ''createdAt'' = (if c = '''' then None else Some (createdGte c))"
  using assms
  by (auto simp add: projectListCmd_filter_def Let_def split: sum.splits if_splits)

lemma projectListCmd_filter_state:
  assumes "projectListCmd_filter P G cmd = Inr f"
  shows "f ''state'' =
    (if p_state cmd \<noteq> '''' then Some (JObject [(''eq'', JString (p_state cmd))])
     else if \<not> p_includeCompleted cmd then Some projectStateNotIn else None)"
  using assms
  by (auto simp add: projectListCmd_filter_def Let_def split: sum.splits if_splits)

subsection \<open>Creation time\<close>

text \<open>
  C1. \<^verbatim>\<open>utils.ParseTimeExpression\<close> returns a string; its callers read the empty string
  as "no boundary" (what \<^verbatim>\<open>all_time\<close> resolves to) and every other string as the
  concrete timestamp. Whenever the expression is accepted, the issue filter and the
  project filter are returned, they have no entry under \<^verbatim>\<open>createdAt\<close> when the
  boundary is unbounded, and they have the entry \<^verbatim>\<open>{"gte": boundary}\<close>, "created at
  or after the boundary", exactly when the boundary is a concrete timestamp.
\<close>

theorem creation_time_predicate:
  assumes "P (i_newerThan ci) = Inr c" and "P (p_newerThan cp) = Inr c'"
    and "team_found G cp"
  shows "(\<exists>f. buildIssueFilter P ci = Inr f
            \<and> f ''createdAt''
                = (if c = '''' then None else Some (JObject [(''gte'', JString c)])))
       \<and> (\<exists>f. projectListCmd_filter P G cp = Inr f
            \<and> f ''createdAt''
                = (if c' = '''' then None else Some (JObject [(''gte'', JString c')])))"
proof -
  obtain f where f: "buildIssueFilter P ci = Inr f"
    using assms(1) buildIssueFilter_returns [of P ci] by blast
  obtain g where g: "projectListCmd_filter P G cp = Inr g"
    using assms(3,2) projectListCmd_filter_returns [of G cp P] by blast
  show ?thesis
    using f g buildIssueFilter_createdAt [of P ci c f, OF assms(1) f]
      projectListCmd_filter_createdAt [of P cp c' G g, OF assms(2) g]
    by (simp add: createdGte_def)
qed

theorem creation_time_predicate_witness:
  "tabled [(''all_time'', Inr ''''), (''2025-07-01'', Inr ''2025-07-01T00:00:00Z'')] ''all_time''
     = Inr ''''
   \<and> tabled [(''all_time'', Inr ''''), (''2025-07-01'', Inr ''2025-07-01T00:00:00Z'')]
       ''2025-07-01'' = Inr ''2025-07-01T00:00:00Z''
   \<and> team_found (answering (Inr ''team-1'')) (project_defaults\<lparr>p_newerThan := ''2025-07-01''\<rparr>)
   \<and> (\<exists>f. buildIssueFilter
             (tabled [(''all_time'', Inr ''''), (''2025-07-01'', Inr ''2025-07-01T00:00:00Z'')])
             (issue_defaults\<lparr>i_newerThan := ''all_time''\<rparr>) = Inr f
          \<and> f ''createdAt'' = None)
   \<and> (\<exists>f. projectListCmd_filter
             (tabled [(''all_time'', Inr ''''), (''2025-07-01'', Inr ''2025-07-01T00:00:00Z'')])
             (answering (Inr ''team-1'')) (project_defaults\<lparr>p_newerThan := ''2025-07-01''\<rparr>)
             = Inr f
          \<and> f ''createdAt'' = Some (JObject [(''gte'', JString ''2025-07-01T00:00:00Z'')]))
   \<and> (\<exists>f. buildIssueFilter
             (tabled [(''all_time'', Inr ''''), (''2025-07-01'', Inr ''2025-07-01T00:00:00Z'')])
             (issue_defaults\<lparr>i_newerThan := ''2025-07-01''\<rparr>) = Inr f
          \<and> f ''createdAt'' = Some (JObject [(''gte'', JString ''2025-07-01T00:00:00Z'')]))
   \<and> (\<exists>f. projectListCmd_filter
             (tabled [(''all_time'', Inr ''''), (''2025-07-01'', Inr ''2025-07-01T00:00:00Z'')])
             (answering (Inr ''team-1'')) (project_defaults\<lparr>p_newerThan := ''all_time''\<rparr>)
             = Inr f
          \<and> f ''createdAt'' = None)"
proof -
  let ?P = "tabled [(''all_time'', Inr ''''), (''2025-07-01'', Inr ''2025-07-01T00:00:00Z'')]"
  let ?G = "answering (Inr ''team-1'')"
  let ?ci = "issue_defaults\<lparr>i_newerThan := ''all_time''\<rparr>"
  let ?cp = "project_defaults\<lparr>p_newerThan := ''2025-07-01''\<rparr>"
  let ?ci' = "issue_defaults\<lparr>i_newerThan := ''2025-07-01''\<rparr>"
  let ?cp' = "project_defaults\<lparr>p_newerThan := ''all_time''\<rparr>"
  have a: "?P (i_newerThan ?ci) = Inr ''''"
    and b: "?P (p_newerThan ?cp) = Inr ''2025-07-01T00:00:00Z''"
    and a': "?P (i_newerThan ?ci') = Inr ''2025-07-01T00:00:00Z''"
    and b': "?P (p_newerThan ?cp') = Inr ''''"
    by (simp_all add: tabled_def)
  have t: "team_found ?G ?cp" and t': "team_found ?G ?cp'"
    by (simp_all add: team_found_def project_defaults_def)
  show ?thesis
    using creation_time_predicate
        [of ?P ?ci "''''" ?cp "''2025-07-01T00:00:00Z''" ?G, OF a b t]
      creation_time_predicate
        [of ?P ?ci' "''2025-07-01T00:00:00Z''" ?cp' "''''" ?G, OF a' b' t']
      a b t
    by simp
qed

subsection \<open>State\<close>

text \<open>
  C2. With a non-empty explicit state and an accepted time expression, the filter holds
  the exact-match predicate on that state (\<^verbatim>\<open>{"name": {"eq": state}}\<close> for issues,
  \<^verbatim>\<open>{"eq": state}\<close> for projects) and not the predicate that excludes completed and
  canceled items, whatever the value of the include-completed flag.
\<close>

theorem explicit_state_overrides_default:
  assumes "i_state ci \<noteq> ''''" and "P (i_newerThan ci) = Inr c"
    and "p_state cp \<noteq> ''''" and "P (p_newerThan cp) = Inr c'" and "team_found G cp"
  shows "(\<exists>f. buildIssueFilter P ci = Inr f
            \<and> f ''state''
                = Some (JObject [(''name'', JObject [(''eq'', JString (i_state ci))])])
            \<and> f ''state''
                \<noteq> Some (JObject [(''type'',
                           JObject [(''nin'', JStrings [''completed'', ''canceled''])])]))
       \<and> (\<exists>f. projectListCmd_filter P G cp = Inr f
            \<and> f ''state'' = Some (JObject [(''eq'', JString (p_state cp))])
            \<and> f ''state'' \<noteq> Some (JObject [(''nin'', JStrings [''completed'', ''canceled''])]))"
proof -
  obtain f where f: "buildIssueFilter P ci = Inr f"
    using assms(2) buildIssueFilter_returns [of P ci] by blast
  obtain g where g: "projectListCmd_filter P G cp = Inr g"
    using assms(5,4) projectListCmd_filter_returns [of G cp P] by blast
  have "f ''state'' = Some (JObject [(''name'', JObject [(''eq'', JString (i_state ci))])])"
    using buildIssueFilter_state [OF f] assms(1) by (simp add: stateNameEq_def)
  moreover have "g ''state'' = Some (JObject [(''eq'', JString (p_state cp))])"
    using projectListCmd_filter_state [OF g] assms(3) by simp
  ultimately show ?thesis
    using f g by simp
qed

theorem explicit_state_overrides_default_witness:
  "(\<exists>f. buildIssueFilter (answering (Inr ''''))
           (issue_defaults\<lparr>i_state := ''Done'', i_includeCompleted := False\<rparr>) = Inr f
        \<and> f ''state'' = Some (JObject [(''name'', JObject [(''eq'', JString ''Done'')])]))
   \<and> (\<exists>f. buildIssueFilter (answering (Inr ''''))
           (issue_defaults\<lparr>i_state := ''Done'', i_includeCompleted := True\<rparr>) = Inr f
        \<and> f ''state'' = Some (JObject [(''name'', JObject [(''eq'', JString ''Done'')])]))
   \<and> (\<exists>f. projectListCmd_filter (answering (Inr '''')) (answering (Inr ''team-1''))
           (project_defaults\<lparr>p_state := ''completed'', p_includeCompleted := False\<rparr>) = Inr f
        \<and> f ''state'' = Some (JObject [(''eq'', JString ''completed'')]))"
proof -
  let ?P = "answering (Inr '''')" and ?G = "answering (Inr ''team-1'')"
  let ?ci = "issue_defaults\<lparr>i_state := ''Done'', i_includeCompleted := False\<rparr>"
  let ?ci' = "issue_defaults\<lparr>i_state := ''Done'', i_includeCompleted := True\<rparr>"
  let ?cp = "project_defaults\<lparr>p_state := ''completed'', p_includeCompleted := False\<rparr>"
  have s: "i_state ?ci \<noteq> ''''" and s': "p_state ?cp \<noteq> ''''" and s'': "i_state ?ci' \<noteq> ''''"
    by simp_all
  have a: "?P (i_newerThan ?ci) = Inr ''''" and b: "?P (p_newerThan ?cp) = Inr ''''"
    and a': "?P (i_newerThan ?ci') = Inr ''''"
    by (simp_all add: answering_def)
  have t: "team_found ?G ?cp"
    by (simp add: team_found_def project_defaults_def)
  show ?thesis
    using explicit_state_overrides_default [of ?ci ?P "''''" ?cp "''''" ?G, OF s a s' b t]
      explicit_state_overrides_default [of ?ci' ?P "''''" ?cp "''''" ?G, OF s'' a' s' b t]
    by simp blast
qed

text \<open>
  C3. With no explicit state and an accepted time expression: when the include-completed
  flag is set the filter has no entry under \<^verbatim>\<open>state\<close>; when it is not set the entry is
  exactly the predicate that excludes the state categories \<^verbatim>\<open>completed\<close> and
  \<^verbatim>\<open>canceled\<close>.
\<close>

theorem default_state_exclusion:
  assumes "i_state ci = ''''" and "P (i_newerThan ci) = Inr c"
    and "p_state cp = ''''" and "P (p_newerThan cp) = Inr c'" and "team_found G cp"
  shows "(\<exists>f. buildIssueFilter P ci = Inr f
            \<and> f ''state'' = (if i_includeCompleted ci then None else Some stateTypeNotIn))
       \<and> (\<exists>f. projectListCmd_filter P G cp = Inr f
            \<and> f ''state'' = (if p_includeCompleted cp then None else Some projectStateNotIn))
       \<and> stateTypeNotIn
           = JObject [(''type'', JObject [(''nin'', JStrings [''completed'', ''canceled''])])]
       \<and> projectStateNotIn = JObject [(''nin'', JStrings [''completed'', ''canceled''])]"
proof -
  obtain f where f: "buildIssueFilter P ci = Inr f"
    using assms(2) buildIssueFilter_returns [of P ci] by blast
  obtain g where g: "projectListCmd_filter P G cp = Inr g"
    using assms(5,4) projectListCmd_filter_returns [of G cp P] by blast
  have "f ''state'' = (if i_includeCompleted ci then None else Some stateTypeNotIn)"
    using buildIssueFilter_state [OF f] assms(1) by simp
  moreover have "g ''state'' = (if p_includeCompleted cp then None else Some projectStateNotIn)"
    using projectListCmd_filter_state [OF g] assms(3) by simp
  ultimately show ?thesis
    using f g by (simp add: stateTypeNotIn_def projectStateNotIn_def)
qed

theorem default_state_exclusion_witness:
  "(\<exists>f. buildIssueFilter (answering (Inr '''')) (issue_defaults\<lparr>i_includeCompleted := True\<rparr>)
           = Inr f \<and> f ''state'' = None)
   \<and> (\<exists>f. projectListCmd_filter (answering (Inr '''')) (answering (Inr ''team-1''))
           project_defaults = Inr f \<and> f ''state'' = Some projectStateNotIn)"
proof -
  let ?P = "answering (Inr '''')" and ?G = "answering (Inr ''team-1'')"
  let ?ci = "issue_defaults\<lparr>i_includeCompleted := True\<rparr>"
  have s: "i_state ?ci = ''''" and s': "p_state project_defaults = ''''"
    by (simp_all add: issue_defaults_def project_defaults_def)
  have a: "?P (i_newerThan ?ci) = Inr ''''"
    and b: "?P (p_newerThan project_defaults) = Inr ''''"
    by (simp_all add: answering_def)
  have t: "team_found ?G project_defaults"
    by (simp add: team_found_def project_defaults_def)
  have "i_includeCompleted ?ci" and "\<not> p_includeCompleted project_defaults"
    by (simp_all add: project_defaults_def)
  then show ?thesis
    using default_state_exclusion [of ?ci ?P "''''" project_defaults "''''" ?G, OF s a s' b t]
    by simp
qed

subsection \<open>Assignee\<close>

text \<open>
  C4, as the code has it. With an accepted time expression, the entry under
  \<^verbatim>\<open>assignee\<close> of the issue filter is: none for the empty input, the current-viewer
  predicate \<^verbatim>\<open>{"isMe": {"eq": true}}\<close> for the token \<^verbatim>\<open>me\<close>, and the exact match
  \<^verbatim>\<open>{"email": {"eq": input}}\<close> for every other input. The flag is documented as
  "email or 'me'": the token \<^verbatim>\<open>unassigned\<close> has no case of its own and is matched as
  an email.
\<close>

theorem assignee_predicate:
  assumes "P (i_newerThan ci) = Inr c"
  shows "\<exists>f. buildIssueFilter P ci = Inr f
          \<and> f ''assignee'' =
              (if i_assignee ci = '''' then None
               else if i_assignee ci = ''me''
                 then Some (JObject [(''isMe'', JObject [(''eq'', JBool True)])])
               else Some (JObject [(''email'', JObject [(''eq'', JString (i_assignee ci))])]))"
proof -
  obtain f where f: "buildIssueFilter P ci = Inr f"
    using assms buildIssueFilter_returns [of P ci] by blast
  then show ?thesis
    using buildIssueFilter_assignee [OF f] by (simp add: isMe_def emailEq_def)
qed

theorem assignee_predicate_witness:
  "(\<exists>f. buildIssueFilter (answering (Inr '''')) (issue_defaults\<lparr>i_assignee := ''me''\<rparr>)
           = Inr f
        \<and> f ''assignee'' = Some (JObject [(''isMe'', JObject [(''eq'', JBool True)])]))
   \<and> (\<exists>f. buildIssueFilter (answering (Inr ''''))
           (issue_defaults\<lparr>i_assignee := ''ann@example.com''\<rparr>) = Inr f
        \<and> f ''assignee''
            = Some (JObject [(''email'', JObject [(''eq'', JString ''ann@example.com'')])]))
   \<and> (\<exists>f. buildIssueFilter (answering (Inr '''')) issue_defaults = Inr f
        \<and> f ''assignee'' = None)"
proof -
  let ?P = "answering (Inr '''')"
  have a: "?P (i_newerThan ci) = Inr ''''" for ci
    by (simp add: answering_def)
  have "i_assignee issue_defaults = ''''"
    by (simp add: issue_defaults_def)
  then show ?thesis
    using assignee_predicate [of ?P "issue_defaults\<lparr>i_assignee := ''me''\<rparr>" "''''", OF a]
      assignee_predicate [of ?P "issue_defaults\<lparr>i_assignee := ''ann@example.com''\<rparr>" "''''",
        OF a]
      assignee_predicate [of ?P issue_defaults "''''", OF a]
    by simp
qed

text \<open>
  The claim as stated fails at the token \<^verbatim>\<open>unassigned\<close>: the filter built for it
  holds an exact match on the email \<^verbatim>\<open>unassigned\<close>, not an "assignee is absent"
  predicate.
\<close>

theorem assignee_unassigned_counterexample:
  "buildIssueFilter (answering (Inr '''')) (issue_defaults\<lparr>i_assignee := ''unassigned''\<rparr>)
     = Inr [''assignee'' \<mapsto> JObject [(''email'', JObject [(''eq'', JString ''unassigned'')])],
            ''state'' \<mapsto> JObject [(''type'',
                          JObject [(''nin'', JStrings [''completed'', ''canceled''])])]]"
  by (simp add: buildIssueFilter_def issue_defaults_def answering_def emailEq_def
      stateTypeNotIn_def)

subsection \<open>Sort order\<close>

lemma issueListCmd_orderBy_cases:
  "issueListCmd_orderBy s =
     (if s = '''' \<or> s = ''linear'' then Inr ''''
      else if s = ''created'' \<or> s = ''createdAt'' then Inr ''createdAt''
      else if s = ''updated'' \<or> s = ''updatedAt'' then Inr ''updatedAt''
      else Inl (Exit 1 (''Invalid sort option: '' @ s
              @ ''. Valid options are: linear, created, updated'')))"
  by (simp add: issueListCmd_orderBy_def)

lemma issueSearchCmd_orderBy_eq: "issueSearchCmd_orderBy = issueListCmd_orderBy"
  by (rule ext) (simp add: issueSearchCmd_orderBy_def issueListCmd_orderBy_def)

lemma projectListCmd_orderBy_eq: "projectListCmd_orderBy = issueListCmd_orderBy"
  by (rule ext) (simp add: projectListCmd_orderBy_def issueListCmd_orderBy_def)

text \<open>
  C6, as the code has it. In each of the three commands the sort token is normalised as
  follows: the empty token and \<^verbatim>\<open>linear\<close> give the empty order-by (the upstream
  default order); \<^verbatim>\<open>created\<close> and \<^verbatim>\<open>createdAt\<close> give the field \<^verbatim>\<open>createdAt\<close>;
  \<^verbatim>\<open>updated\<close> and \<^verbatim>\<open>updatedAt\<close> give the field \<^verbatim>\<open>updatedAt\<close>; every other token
  ends the command with status 1 and the message "Invalid sort option".
\<close>

theorem sort_normalisation:
  "issueListCmd_orderBy s =
     (if s = '''' \<or> s = ''linear'' then Inr ''''
      else if s = ''created'' \<or> s = ''createdAt'' then Inr ''createdAt''
      else if s = ''updated'' \<or> s = ''updatedAt'' then Inr ''updatedAt''
      else Inl (Exit 1 (''Invalid sort option: '' @ s
              @ ''. Valid options are: linear, created, updated'')))
   \<and> issueSearchCmd_orderBy s = issueListCmd_orderBy s
   \<and> projectListCmd_orderBy s = issueListCmd_orderBy s"
  using issueListCmd_orderBy_cases [of s]
  by (simp only: issueSearchCmd_orderBy_eq projectListCmd_orderBy_eq simp_thms)

text \<open>
  The claim as stated fails at the tokens \<^verbatim>\<open>createdAt\<close> and \<^verbatim>\<open>updatedAt\<close>: they are
  none of \<^verbatim>\<open>linear\<close>, \<^verbatim>\<open>created\<close>, \<^verbatim>\<open>updated\<close>, they are not empty, and the
  commands accept them.
\<close>

theorem sort_alias_counterexample:
  "issueListCmd_orderBy ''createdAt'' = Inr ''createdAt''
   \<and> issueSearchCmd_orderBy ''updatedAt'' = Inr ''updatedAt''
   \<and> projectListCmd_orderBy ''createdAt'' = Inr ''createdAt''"
  by (simp add: issueListCmd_orderBy_def issueSearchCmd_orderBy_def projectListCmd_orderBy_def)

subsection \<open>The empty time expression\<close>

text \<open>
  C7, as the code has it. Neither \<^verbatim>\<open>buildIssueFilter\<close> nor \<^verbatim>\<open>project list\<close> holds a
  default boundary. With no \<^verbatim>\<open>--newer-than\<close> flag they pass the empty expression to
  \<^verbatim>\<open>utils.ParseTimeExpression\<close> like any other, and what the call returns for it
  decides the filter: an error ends the command, the empty string gives no entry under
  \<^verbatim>\<open>createdAt\<close>, and any other string \<open>c\<close> becomes the lower bound \<^verbatim>\<open>{"gte": c}\<close> as
  it is. A default window for the empty expression can therefore only be the return
  value of that call.
\<close>

theorem empty_expression_left_to_resolver:
  assumes "i_newerThan ci = ''''" and "p_newerThan cp = ''''" and "team_found G cp"
  shows "case P '''' of
           Inl err \<Rightarrow>
             buildIssueFilter P ci = Inl (Exit 1 (''Invalid newer-than value: '' @ err))
             \<and> projectListCmd_filter P G cp
                 = Inl (Exit 1 (''Invalid newer-than value: '' @ err))
         | Inr c \<Rightarrow>
             (\<exists>f. buildIssueFilter P ci = Inr f
                \<and> f ''createdAt''
                    = (if c = '''' then None else Some (JObject [(''gte'', JString c)])))
             \<and> (\<exists>f. projectListCmd_filter P G cp = Inr f
                \<and> f ''createdAt''
                    = (if c = '''' then None else Some (JObject [(''gte'', JString c)])))"
proof (cases "P ''''")
  case (Inl err)
  then have "P (i_newerThan ci) = Inl err" and "P (p_newerThan cp) = Inl err"
    using assms(1,2) by simp_all
  then show ?thesis
    using Inl buildIssueFilter_aborts [of P ci err]
      projectListCmd_filter_aborts [of G cp P err] assms(3)
    by simp
next
  case (Inr c)
  then have a: "P (i_newerThan ci) = Inr c" and b: "P (p_newerThan cp) = Inr c"
    using assms(1,2) by simp_all
  obtain f where f: "buildIssueFilter P ci = Inr f"
    using a buildIssueFilter_returns [of P ci] by blast
  obtain g where g: "projectListCmd_filter P G cp = Inr g"
    using assms(3) b projectListCmd_filter_returns [of G cp P] by blast
  show ?thesis
    using Inr f g buildIssueFilter_createdAt [of P ci c f, OF a f]
      projectListCmd_filter_createdAt [of P cp c G g, OF b g]
    by (simp add: createdGte_def)
qed

theorem empty_expression_left_to_resolver_witness:
  "i_newerThan issue_defaults = '''' \<and> p_newerThan project_defaults = ''''
   \<and> team_found (answering (Inr ''team-1'')) project_defaults
   \<and> (\<exists>f. buildIssueFilter (answering (Inr ''2026-05-01T00:00:00Z'')) issue_defaults = Inr f
        \<and> f ''createdAt'' = Some (JObject [(''gte'', JString ''2026-05-01T00:00:00Z'')]))
   \<and> (\<exists>f. projectListCmd_filter (answering (Inr ''2026-05-01T00:00:00Z''))
           (answering (Inr ''team-1'')) project_defaults = Inr f
        \<and> f ''createdAt'' = Some (JObject [(''gte'', JString ''2026-05-01T00:00:00Z'')]))
   \<and> (\<exists>f. buildIssueFilter (answering (Inr '''')) issue_defaults = Inr f
        \<and> f ''createdAt'' = None)
   \<and> buildIssueFilter (answering (Inl ''no default'')) issue_defaults
       = Inl (Exit 1 ''Invalid newer-than value: no default'')"
proof -
  let ?P = "answering (Inr ''2026-05-01T00:00:00Z'')" and ?G = "answering (Inr ''team-1'')"
  let ?Q = "answering (Inr '''')" and ?R = "answering (Inl ''no default'')"
  have a: "i_newerThan issue_defaults = ''''" and b: "p_newerThan project_defaults = ''''"
    by (simp_all add: issue_defaults_def project_defaults_def)
  have t: "team_found ?G project_defaults"
    by (simp add: team_found_def project_defaults_def)
  have "?P '''' = Inr ''2026-05-01T00:00:00Z''" and "?Q '''' = Inr ''''"
    and "?R '''' = Inl ''no default''"
    by (simp_all add: answering_def)
  then show ?thesis
    using empty_expression_left_to_resolver [of issue_defaults project_defaults ?G ?P, OF a b t]
      empty_expression_left_to_resolver [of issue_defaults project_defaults ?G ?Q, OF a b t]
      empty_expression_left_to_resolver [of issue_defaults project_defaults ?G ?R, OF a b t]
      a b t
    by simp
qed

text \<open>
  The claim as stated fails: when the call answers the empty expression with a value
  that is no timestamp, the commands substitute nothing. For the answer \<^verbatim>\<open>""\<close> the
  filters built from the default flags have no entry under \<^verbatim>\<open>createdAt\<close> at all, and
  any other marker is copied into the filter as if it were the boundary.
\<close>

theorem composer_default_counterexample:
  "buildIssueFilter (answering (Inr '''')) issue_defaults
     = Inr [''state'' \<mapsto> JObject [(''type'',
                          JObject [(''nin'', JStrings [''completed'', ''canceled''])])]]
   \<and> projectListCmd_filter (answering (Inr '''')) (answering (Inr ''team-1'')) project_defaults
       = Inr [''state'' \<mapsto> JObject [(''nin'', JStrings [''completed'', ''canceled''])]]
   \<and> buildIssueFilter (answering (Inr ''use-default'')) issue_defaults
       = Inr [''state'' \<mapsto> JObject [(''type'',
                            JObject [(''nin'', JStrings [''completed'', ''canceled''])])],
              ''createdAt'' \<mapsto> JObject [(''gte'', JString ''use-default'')]]"
  by (simp add: buildIssueFilter_def projectListCmd_filter_def issue_defaults_def
      project_defaults_def answering_def createdGte_def stateTypeNotIn_def
      projectStateNotIn_def)

subsection \<open>The commands agree\<close>







subsection \<open>The resolver\<close>

lemma parse_relative_not_keyword:
  assumes "parse_relative e = Some x"
  shows "e \<noteq> '''' \<and> e \<noteq> ''all_time''"
proof -
  have "parse_relative '''' = None"
    by (simp add: parse_relative_def number_def)
  moreover have "parse_relative ''all_time'' = None"
    by (simp add: parse_relative_def number_def is_digit_def)
  ultimately show ?thesis
    using assms by auto
qed

lemma resolve_relative:
  assumes "parse_relative e = Some (n, u)"
  shows "resolve now e = Inr (At (minus_units n u now))"
  using assms parse_relative_not_keyword [OF assms] by (simp add: resolve_def)

lemma resolve_unrecognized:
  assumes "\<not> recognized e"
  shows "resolve now e = Inl (InvalidTimeExpression e accepted_forms)"
  using assms by (auto simp add: recognized_def resolve_def split: option.splits)

lemma use_default_iff: "resolve now e = Inr UseDefault \<longleftrightarrow> e = ''''"
  by (simp add: resolve_def split: option.splits)

lemma days_in_month_ge: "28 \<le> days_in_month y m"
  by (simp add: days_in_month_def)

lemma minus_months_index:
  "12 * ts_year (minus_months n t) + ts_month (minus_months n t)
     = 12 * ts_year t + ts_month t - n"
  by (simp add: minus_months_def Let_def)

lemma minus_months_month:
  "1 \<le> ts_month (minus_months n t) \<and> ts_month (minus_months n t) \<le> 12"
  by (simp add: minus_months_def Let_def)

lemma minus_months_day:
  "ts_day (minus_months n t)
     = min (ts_day t) (days_in_month (ts_year (minus_months n t)) (ts_month (minus_months n t)))"
  by (simp add: minus_months_def Let_def)

lemma minus_months_clock:
  "ts_hour (minus_months n t) = ts_hour t \<and> ts_minute (minus_months n t) = ts_minute t
   \<and> ts_second (minus_months n t) = ts_second t"
  by (simp add: minus_months_def Let_def)

lemma minus_months_valid:
  assumes "valid_timestamp t"
  shows "valid_timestamp (minus_months n t)"
proof -
  have "1 \<le> ts_day (minus_months n t)"
    using assms days_in_month_ge [of "ts_year (minus_months n t)" "ts_month (minus_months n t)"]
    by (simp add: minus_months_day valid_timestamp_def)
  moreover have "ts_day (minus_months n t)
      \<le> days_in_month (ts_year (minus_months n t)) (ts_month (minus_months n t))"
    by (simp add: minus_months_day)
  ultimately show ?thesis
    using assms minus_months_month [of n t] minus_months_clock [of n t]
    by (simp add: valid_timestamp_def)
qed

lemma one_month_ago: "parse_relative ''1_month_ago'' = Some (1, Month)"
  by (simp add: parse_relative_def number_def is_digit_def digit_value_def unit_of_def)

lemma march_31:
  assumes "ts_month now = 3" and "ts_day now = 31"
  shows "minus_months 1 now
    = now\<lparr>ts_month := 2, ts_day := (if is_leap (ts_year now) then 29 else 28)\<rparr>"
proof -
  have "(12 * ts_year now + 1) div 12 = ts_year now" and "(12 * ts_year now + 1) mod 12 = 1"
    by simp_all
  then show ?thesis
    using assms by (simp add: minus_months_def Let_def days_in_month_def)
qed

text \<open>
  C8. On the resolver as the specification describes it: an expression of \<open>n\<close> months
  ago, resolved at a well-formed time \<open>now\<close>, gives a well-formed timestamp that lies
  exactly \<open>n\<close> calendar months before the month of \<open>now\<close>, on the day of \<open>now\<close> or, when
  the target month is shorter, on its last day; the day never runs past the end of the
  target month. In particular \<^verbatim>\<open>1_month_ago\<close> on March 31 is the last day of February
  of the same year (the 29th in a leap year, the 28th otherwise), at the same time of
  day.
\<close>

theorem month_subtraction_is_calendar_correct:
  assumes "parse_relative e = Some (n, Month)" and "valid_timestamp now"
  shows "(\<exists>t. resolve now e = Inr (At t)
            \<and> 12 * ts_year t + ts_month t = 12 * ts_year now + ts_month now - int n
            \<and> 1 \<le> ts_month t \<and> ts_month t \<le> 12
            \<and> ts_day t = min (ts_day now) (days_in_month (ts_year t) (ts_month t))
            \<and> ts_day t \<le> days_in_month (ts_year t) (ts_month t)
            \<and> valid_timestamp t)
       \<and> (ts_month now = 3 \<and> ts_day now = 31 \<longrightarrow>
            resolve now ''1_month_ago''
              = Inr (At (now\<lparr>ts_month := 2,
                              ts_day := (if is_leap (ts_year now) then 29 else 28)\<rparr>)))"
proof -
  let ?t = "minus_months (int n) now"
  have "resolve now e = Inr (At ?t)"
    using resolve_relative [OF assms(1), of now] by simp
  moreover have "12 * ts_year ?t + ts_month ?t = 12 * ts_year now + ts_month now - int n"
    by (rule minus_months_index)
  moreover have "1 \<le> ts_month ?t \<and> ts_month ?t \<le> 12"
    by (rule minus_months_month)
  moreover have "ts_day ?t = min (ts_day now) (days_in_month (ts_year ?t) (ts_month ?t))"
    by (rule minus_months_day)
  moreover have "valid_timestamp ?t"
    using assms(2) by (rule minus_months_valid)
  moreover have "resolve now ''1_month_ago''
      = Inr (At (now\<lparr>ts_month := 2, ts_day := (if is_leap (ts_year now) then 29 else 28)\<rparr>))"
    if "ts_month now = 3" and "ts_day now = 31"
    using resolve_relative [OF one_month_ago, of now] march_31 [OF that] by simp
  ultimately show ?thesis
    by (simp add: valid_timestamp_def)
qed

theorem month_subtraction_is_calendar_correct_witness:
  "parse_relative ''1_month_ago'' = Some (1, Month)
   \<and> valid_timestamp \<lparr>ts_year = 2024, ts_month = 3, ts_day = 31,
                        ts_hour = 10, ts_minute = 20, ts_second = 30\<rparr>
   \<and> resolve \<lparr>ts_year = 2024, ts_month = 3, ts_day = 31,
               ts_hour = 10, ts_minute = 20, ts_second = 30\<rparr> ''1_month_ago''
       = Inr (At \<lparr>ts_year = 2024, ts_month = 2, ts_day = 29,
                   ts_hour = 10, ts_minute = 20, ts_second = 30\<rparr>)"
proof -
  let ?now = "\<lparr>ts_year = 2024, ts_month = 3, ts_day = 31,
               ts_hour = 10, ts_minute = 20, ts_second = 30\<rparr>"
  have v: "valid_timestamp ?now"
    by (simp add: valid_timestamp_def days_in_month_def)
  have "is_leap 2024"
    by (simp add: is_leap_def)
  then show ?thesis
    using month_subtraction_is_calendar_correct [OF one_month_ago v] one_month_ago v
    by simp
qed

subsection \<open>Invalid time expressions\<close>

lemma ParseTimeExpression_unrecognized:
  assumes "\<not> recognized e"
  shows "ParseTimeExpression d now e = Inl (''invalid time expression: '' @ e)"
  using resolve_unrecognized [OF assms, of now] by (simp add: ParseTimeExpression_def)

lemma resolve_recognized:
  assumes "recognized e"
  shows "\<exists>b. resolve now e = Inr b"
  using assms by (auto simp add: recognized_def resolve_def split: option.splits)

lemma ParseTimeExpression_recognized:
  assumes "recognized e"
  shows "\<exists>c. ParseTimeExpression d now e = Inr c"
proof -
  obtain b where "resolve now e = Inr b"
    using resolve_recognized [OF assms] by blast
  then show ?thesis
    by (cases b) (simp_all add: ParseTimeExpression_def)
qed

lemma projectListCmd_filter_lookup_fails:
  assumes "\<not> team_found G cp"
  shows "\<exists>a. projectListCmd_filter P G cp = Inl a"
proof (cases "G (p_team cp)")
  case (Inl err)
  then show ?thesis
    using assms by (simp add: projectListCmd_filter_def team_found_def)
next
  case (Inr teamID)
  then show ?thesis
    using assms by (simp add: team_found_def)
qed

text \<open>
  C5. With the resolver of the specification behind \<^verbatim>\<open>utils.ParseTimeExpression\<close>: an
  expression that matches no form of the grammar (it is then not empty) is refused with
  \<^verbatim>\<open>InvalidTimeExpression\<close>, and every command that receives it ends with status 1 and
  the message "Invalid newer-than value: ..." before any request is made
  (\<^verbatim>\<open>project list\<close> ends even earlier, also without a filter, when its team lookup
  fails). Filter construction returns no filter for it, neither a partial one nor one
  without a time predicate nor one with the default boundary: a filter is returned
  exactly for the expressions that the grammar recognizes.
\<close>

theorem invalid_expression_aborts:
  assumes "\<not> recognized e" and "i_newerThan ci = e" and "p_newerThan cp = e"
  shows "resolve now e = Inl (InvalidTimeExpression e accepted_forms)
       \<and> e \<noteq> ''''
       \<and> buildIssueFilter (ParseTimeExpression d now) ci
           = Inl (Exit 1 (''Invalid newer-than value: '' @ ''invalid time expression: '' @ e))
       \<and> issueListCmd (ParseTimeExpression d now) ci
           = Inl (Exit 1 (''Invalid newer-than value: '' @ ''invalid time expression: '' @ e))
       \<and> issueSearchCmd (ParseTimeExpression d now) q ci
           = Inl (Exit 1 (''Invalid newer-than value: '' @ ''invalid time expression: '' @ e))
       \<and> (team_found G cp \<longrightarrow>
            projectListCmd_filter (ParseTimeExpression d now) G cp
              = Inl (Exit 1 (''Invalid newer-than value: '' @ ''invalid time expression: '' @ e))
            \<and> projectListCmd (ParseTimeExpression d now) G cp
              = Inl (Exit 1 (''Invalid newer-than value: '' @ ''invalid time expression: ''
                       @ e)))
       \<and> (\<exists>a. projectListCmd_filter (ParseTimeExpression d now) G cp = Inl a)
       \<and> (\<exists>a. projectListCmd (ParseTimeExpression d now) G cp = Inl a)
       \<and> ((\<exists>f. buildIssueFilter (ParseTimeExpression d now) ci' = Inr f)
            \<longleftrightarrow> recognized (i_newerThan ci'))"
proof -
  let ?P = "ParseTimeExpression d now"
  have r: "?P e = Inl (''invalid time expression: '' @ e)"
    using assms(1) by (rule ParseTimeExpression_unrecognized)
  have i: "buildIssueFilter ?P ci
      = Inl (Exit 1 (''Invalid newer-than value: '' @ ''invalid time expression: '' @ e))"
    using r assms(2) buildIssueFilter_aborts [of ?P ci "''invalid time expression: '' @ e"]
    by simp
  have p: "projectListCmd_filter ?P G cp
      = Inl (Exit 1 (''Invalid newer-than value: '' @ ''invalid time expression: '' @ e))"
    if "team_found G cp"
    using r assms(3) that
      projectListCmd_filter_aborts [of G cp ?P "''invalid time expression: '' @ e"]
    by simp
  have p': "\<exists>a. projectListCmd_filter ?P G cp = Inl a"
    using p projectListCmd_filter_lookup_fails [of G cp ?P] by (cases "team_found G cp") auto
  then have p'': "\<exists>a. projectListCmd ?P G cp = Inl a"
    by (auto simp add: projectListCmd_def)
  have "e \<noteq> ''''"
    using assms(1) by (auto simp add: recognized_def)
  moreover have "(\<exists>f. buildIssueFilter ?P ci' = Inr f) \<longleftrightarrow> recognized (i_newerThan ci')"
  proof (cases "recognized (i_newerThan ci')")
    case True
    then obtain c where "?P (i_newerThan ci') = Inr c"
      using ParseTimeExpression_recognized [of "i_newerThan ci'" d now] by blast
    then show ?thesis
      using True buildIssueFilter_returns [of ?P ci' c] by simp
  next
    case False
    then have "?P (i_newerThan ci') = Inl (''invalid time expression: '' @ i_newerThan ci')"
      by (rule ParseTimeExpression_unrecognized)
    then show ?thesis
      using False
        buildIssueFilter_aborts [of ?P ci' "''invalid time expression: '' @ i_newerThan ci'"]
      by simp
  qed
  ultimately show ?thesis
    using i p p' p'' resolve_unrecognized [OF assms(1), of now]
    by (simp add: issueListCmd_def issueSearchCmd_def projectListCmd_def)
qed

theorem invalid_expression_aborts_witness:
  "\<not> recognized ''not_a_time''
   \<and> team_found (answering (Inr ''team-1'')) (project_defaults\<lparr>p_newerThan := ''not_a_time''\<rparr>)
   \<and> resolve \<lparr>ts_year = 2026, ts_month = 11, ts_day = 1,
               ts_hour = 0, ts_minute = 0, ts_second = 0\<rparr> ''not_a_time''
       = Inl (InvalidTimeExpression ''not_a_time'' accepted_forms)
   \<and> issueListCmd
       (ParseTimeExpression
          \<lparr>ts_year = 2026, ts_month = 5, ts_day = 1,
           ts_hour = 0, ts_minute = 0, ts_second = 0\<rparr>
          \<lparr>ts_year = 2026, ts_month = 11, ts_day = 1,
           ts_hour = 0, ts_minute = 0, ts_second = 0\<rparr>)
       (issue_defaults\<lparr>i_newerThan := ''not_a_time''\<rparr>)
       = Inl (Exit 1 ''Invalid newer-than value: invalid time expression: not_a_time'')
   \<and> projectListCmd
       (ParseTimeExpression
          \<lparr>ts_year = 2026, ts_month = 5, ts_day = 1,
           ts_hour = 0, ts_minute = 0, ts_second = 0\<rparr>
          \<lparr>ts_year = 2026, ts_month = 11, ts_day = 1,
           ts_hour = 0, ts_minute = 0, ts_second = 0\<rparr>)
       (answering (Inr ''team-1'')) (project_defaults\<lparr>p_newerThan := ''not_a_time''\<rparr>)
       = Inl (Exit 1 ''Invalid newer-than value: invalid time expression: not_a_time'')"
proof -
  let ?G = "answering (Inr ''team-1'')"
  let ?ci = "issue_defaults\<lparr>i_newerThan := ''not_a_time''\<rparr>"
  let ?cp = "project_defaults\<lparr>p_newerThan := ''not_a_time''\<rparr>"
  let ?d = "\<lparr>ts_year = 2026, ts_month = 5, ts_day = 1,
             ts_hour = 0, ts_minute = 0, ts_second = 0\<rparr>"
  let ?now = "\<lparr>ts_year = 2026, ts_month = 11, ts_day = 1,
               ts_hour = 0, ts_minute = 0, ts_second = 0\<rparr>"
  have n: "\<not> recognized ''not_a_time''"
    by (simp add: recognized_def parse_relative_def parse_absolute_def parse_date_def
        number_def is_digit_def)
  have a: "i_newerThan ?ci = ''not_a_time''" and b: "p_newerThan ?cp = ''not_a_time''"
    by simp_all
  have t: "team_found ?G ?cp"
    by (simp add: team_found_def project_defaults_def)
  show ?thesis
    using invalid_expression_aborts
        [of "''not_a_time''" ?ci ?cp ?now ?d "''login''" ?G issue_defaults, OF n a b] n t
    by simp
qed

subsection \<open>Truncation\<close>

lemma wrap64_id: "in_int64 x \<Longrightarrow> wrap64 x = x"
  by (simp add: in_int64_def wrap64_def)

lemma mod_below_zero:
  fixes y m :: int
  assumes "- m \<le> y" and "y < 0"
  shows "y mod m = y + m"
proof -
  have "(y + m) mod m = y + m"
    using assms by (intro mod_pos_pos_trivial) simp_all
  then show ?thesis
    by (simp only: mod_add_self2)
qed

lemma wrap64_low:
  assumes "- (2 ^ 63) - 3 \<le> x" and "x < - (2 ^ 63)"
  shows "wrap64 x = x + 2 ^ 64"
proof -
  have "(x + 2 ^ 63) mod 2 ^ 64 = x + 2 ^ 63 + 2 ^ 64"
    using assms by (intro mod_below_zero) simp_all
  then show ?thesis
    by (simp add: wrap64_def)
qed

lemma truncateString_panics:
  assumes "in_int64 maxLen" and "int (length s) < 2 ^ 63 - 3"
    and "maxLen < int (length s)" and "maxLen < 3"
  shows "truncateString s maxLen = Inl SliceBoundsOutOfRange"
proof (cases "- (2 ^ 63) \<le> maxLen - 3")
  case True
  then have "in_int64 (maxLen - 3)"
    using assms(1) by (simp add: in_int64_def)
  then have "wrap64 (maxLen - 3) = maxLen - 3"
    by (rule wrap64_id)
  then show ?thesis
    using assms(3,4) by (simp add: truncateString_def)
next
  case False
  then have "wrap64 (maxLen - 3) = maxLen - 3 + 2 ^ 64"
    using assms(1) by (intro wrap64_low) (simp_all add: in_int64_def)
  moreover have "int (length s) < maxLen - 3 + 2 ^ 64"
    using assms(1,2) by (simp add: in_int64_def)
  ultimately show ?thesis
    using assms(3) by (simp add: truncateString_def)
qed

lemma truncateString_cuts:
  assumes "in_int64 maxLen" and "maxLen < int (length s)" and "3 \<le> maxLen"
  shows "truncateString s maxLen = Inr (take (nat (maxLen - 3)) s @ ''...'')"
proof -
  have "in_int64 (maxLen - 3)"
    using assms(1,3) by (simp add: in_int64_def)
  then have "wrap64 (maxLen - 3) = maxLen - 3"
    by (rule wrap64_id)
  then show ?thesis
    using assms(2,3) by (simp add: truncateString_def)
qed

text \<open>
  C10. For a \<^verbatim>\<open>maxLen\<close> that is a Go \<^verbatim>\<open>int\<close> and a string shorter than \<open>2^63 - 3\<close>
  bytes (\<^verbatim>\<open>maxLen - 3\<close> wraps around for the three smallest values of \<^verbatim>\<open>maxLen\<close>, to
  an index beyond the end of every such string): \<^verbatim>\<open>truncateString(s, maxLen)\<close> returns \<open>s\<close> unchanged when
  \<open>len(s) \<le> maxLen\<close>; when \<open>len(s) > maxLen\<close> and \<open>maxLen \<ge> 3\<close> it returns a string of
  exactly \<open>maxLen\<close> bytes that ends in \<^verbatim>\<open>...\<close>; when \<open>len(s) > maxLen\<close> and
  \<open>maxLen < 3\<close> the slice bound is out of range and the call panics. Hence the call
  returns exactly when \<open>maxLen \<ge> 3\<close> or \<open>len(s) \<le> maxLen\<close>.
\<close>

theorem truncateString_contract:
  assumes "in_int64 maxLen" and "int (length s) < 2 ^ 63 - 3"
  shows "(int (length s) \<le> maxLen \<longrightarrow> truncateString s maxLen = Inr s)
    \<and> (maxLen < int (length s) \<and> 3 \<le> maxLen \<longrightarrow>
         (\<exists>r. truncateString s maxLen = Inr r \<and> int (length r) = maxLen
            \<and> drop (length r - 3) r = ''...''))
    \<and> (maxLen < int (length s) \<and> maxLen < 3 \<longrightarrow>
         truncateString s maxLen = Inl SliceBoundsOutOfRange)
    \<and> ((\<exists>r. truncateString s maxLen = Inr r) \<longleftrightarrow> 3 \<le> maxLen \<or> int (length s) \<le> maxLen)"
proof -
  have keep: "int (length s) \<le> maxLen \<Longrightarrow> truncateString s maxLen = Inr s"
    by (simp add: truncateString_def)
  have cut: "\<exists>r. truncateString s maxLen = Inr r \<and> int (length r) = maxLen
      \<and> drop (length r - 3) r = ''...''"
    if "maxLen < int (length s)" and "3 \<le> maxLen"
  proof -
    let ?r = "take (nat (maxLen - 3)) s @ ''...''"
    have len: "length (take (nat (maxLen - 3)) s) = nat (maxLen - 3)"
      using that by simp
    have "truncateString s maxLen = Inr ?r"
      using assms(1) that by (rule truncateString_cuts)
    moreover have "int (length ?r) = maxLen"
      using that len by simp
    moreover have "drop (length ?r - 3) ?r = ''...''"
      using len by simp
    ultimately show ?thesis
      by blast
  qed
  have boom: "truncateString s maxLen = Inl SliceBoundsOutOfRange"
    if "maxLen < int (length s)" and "maxLen < 3"
    using assms that by (rule truncateString_panics)
  have "(\<exists>r. truncateString s maxLen = Inr r) \<longleftrightarrow> 3 \<le> maxLen \<or> int (length s) \<le> maxLen"
  proof (cases "int (length s) \<le> maxLen")
    case True
    then show ?thesis using keep by simp
  next
    case False
    show ?thesis
    proof (cases "3 \<le> maxLen")
      case True
      then show ?thesis using cut False by auto
    next
      case False
      then show ?thesis using boom \<open>\<not> int (length s) \<le> maxLen\<close> by simp
    qed
  qed
  then show ?thesis
    using keep cut boom by blast
qed

theorem truncateString_contract_witness:
  "truncateString ''Fix login bug'' 40 = Inr ''Fix login bug''
   \<and> truncateString ''Fix login bug'' 6 = Inr ''Fix...''
   \<and> truncateString ''Fix login bug'' 2 = Inl SliceBoundsOutOfRange
   \<and> in_int64 2 \<and> int (length ''Fix login bug'') < 2 ^ 63 - 3"
proof -
  have r: "in_int64 2" "in_int64 6" "in_int64 40"
    by (simp_all add: in_int64_def)
  have l: "int (length ''Fix login bug'') < 2 ^ 63 - 3"
    by simp
  have "truncateString ''Fix login bug'' 2 = Inl SliceBoundsOutOfRange"
    using truncateString_contract [OF r(1) l] by simp
  moreover have "truncateString ''Fix login bug'' 40 = Inr ''Fix login bug''"
    using truncateString_contract [OF r(3) l] by simp
  moreover have "truncateString ''Fix login bug'' 6 = Inr ''Fix...''"
    using r(2) by (simp add: truncateString_cuts)
  ultimately show ?thesis
    using r(1) l by simp
qed

end
